theory Spec2Isabelle
  imports Complex_Main
begin

section \<open>Raster connections (utils/raster.py)\<close>

text \<open>
  Coordinates, paddings and resolutions are Python floats; they are modelled as reals, so
  NaN, infinities and rounding are outside the model. The exceptions the two modules raise
  themselves are \<open>ValueError\<close>, \<open>NotImplementedError\<close> and \<open>FileNotFoundError\<close>, each
  with its message; \<open>AttributeError\<close> is what Python raises when a method reads an attribute
  the constructor never set; \<open>UpstreamError\<close> stands for any other exception of a library.
\<close>

datatype error =
    ValueError string
  | NotImplementedError string
  | FileNotFoundError string
  | AttributeError string
  | UpstreamError string

datatype crs = EPSG nat

type_synonym point = "real \<times> real"

text \<open>A bounding box is the 4-tuple (min-x, min-y, max-x, max-y), indexed 0 to 3 in the source.\<close>

type_synonym bounds = "real \<times> real \<times> real \<times> real"

text \<open>
  A region of interest is a GeoDataFrame: a CRS and the coordinates of a polygon or
  multipolygon, which has at least one vertex.
\<close>

datatype geometry = Polygon point "point list"

record GeoDataFrame =
  crs :: crs
  geometry :: geometry

type_synonym kwargs = "(string \<times> string) list"

text \<open>
  The libraries the modules call are parameters of the model: rioxarray's
  \<open>open_rasterio\<close> and the \<open>rio\<close> accessor of a raster \<open>'r\<close> (\<open>crs\<close>, \<open>resolution()\<close>,
  \<open>bounds()\<close>, \<open>clip_box\<close>, \<open>reproject\<close>), its \<open>dtype\<close>, the coordinate transformation behind
  geopandas' \<open>to_crs\<close>, and the two dask readers of a table \<open>'t\<close>.
\<close>

record ('r, 't) backend =
  open_rasterio :: "string \<Rightarrow> kwargs \<Rightarrow> error + 'r"
  rio_crs :: "'r \<Rightarrow> crs"
  rio_resolution :: "'r \<Rightarrow> real \<times> real"
  rio_bounds :: "'r \<Rightarrow> bounds"
  dtype :: "'r \<Rightarrow> string"
  rio_clip_box :: "'r \<Rightarrow> bounds \<Rightarrow> error + 'r"
  rio_reproject :: "'r \<Rightarrow> crs \<Rightarrow> error + 'r"
  transform :: "crs \<Rightarrow> crs \<Rightarrow> point \<Rightarrow> point"
  read_csv :: "string \<Rightarrow> error + 't"
  read_parquet :: "string \<Rightarrow> error + 't"

fun coords :: "geometry \<Rightarrow> point list" where
  "coords (Polygon p ps) = p # ps"

fun map_geometry :: "(point \<Rightarrow> point) \<Rightarrow> geometry \<Rightarrow> geometry" where
  "map_geometry f (Polygon p ps) = Polygon (f p) (map f ps)"

text \<open>geopandas' \<open>GeoDataFrame.to_crs\<close>: every coordinate is transformed, the CRS is replaced.\<close>

definition to_crs :: "('r, 't) backend \<Rightarrow> GeoDataFrame \<Rightarrow> crs \<Rightarrow> GeoDataFrame" where
  "to_crs be roi target =
     \<lparr>crs = target, geometry = map_geometry (transform be (crs roi) target) (geometry roi)\<rparr>"

fun grow :: "point \<Rightarrow> bounds \<Rightarrow> bounds" where
  "grow (x, y) (x0, y0, x1, y1) = (min x0 x, min y0 y, max x1 x, max y1 y)"

text \<open>geopandas' \<open>total_bounds\<close>: the smallest box around all coordinates.\<close>

fun geometry_bounds :: "geometry \<Rightarrow> bounds" where
  "geometry_bounds (Polygon (x, y) ps) = fold grow ps (x, y, x, y)"

definition total_bounds :: "GeoDataFrame \<Rightarrow> bounds" where
  "total_bounds roi = geometry_bounds (geometry roi)"

text \<open>
  The attributes \<open>__init__\<close> sets only inside \<open>if connection_type == "rioxarray"\<close> are
  grouped in \<open>raster_attrs\<close>; an object built without entering that branch has none.
\<close>

record 'r raster_attrs =
  raster :: 'r
  raster_crs :: crs
  raster_resolution :: real
  raster_bounds :: bounds
  raster_dtype :: string

record 'r RasterConnection =
  connection_type :: string
  attrs :: "'r raster_attrs option"

definition allowed_connection_types :: "string list" where
  "allowed_connection_types = [''rioxarray'']"

definition RasterConnection_init ::
  "('r, 't) backend \<Rightarrow> string \<Rightarrow> string \<Rightarrow> kwargs \<Rightarrow> error + 'r RasterConnection" where
  "RasterConnection_init be raster_path conn_type kw =
     (if conn_type \<notin> set allowed_connection_types
      then Inl (ValueError (''Connection type '' @ conn_type @ '' not supported.''))
      else if conn_type = ''rioxarray''
      then (case open_rasterio be raster_path kw of
              Inl e \<Rightarrow> Inl e
            | Inr r \<Rightarrow>
                Inr \<lparr>connection_type = conn_type,
                     attrs = Some \<lparr>raster = r,
                                   raster_crs = rio_crs be r,
                                   raster_resolution = \<bar>fst (rio_resolution be r)\<bar>,
                                   raster_bounds = rio_bounds be r,
                                   raster_dtype = dtype be r\<rparr>\<rparr>)
      else Inr \<lparr>connection_type = conn_type, attrs = None\<rparr>)"

definition roi_within_raster_bounds ::
  "('r, 't) backend \<Rightarrow> ('r, 'z) RasterConnection_scheme \<Rightarrow> GeoDataFrame \<Rightarrow> error + bool" where
  "roi_within_raster_bounds be self roi =
     (case attrs self of
        None \<Rightarrow> Inl (AttributeError ''raster_crs'')
      | Some a \<Rightarrow>
          (let roi_reprojected = to_crs be roi (raster_crs a);
               (b0, b1, b2, b3) = total_bounds roi_reprojected;
               (r0, r1, r2, r3) = raster_bounds a
           in Inr (b0 \<ge> r0 \<and> b1 \<ge> r1 \<and> b2 \<le> r2 \<and> b3 \<le> r3)))"

text \<open>
  The calls \<open>_extract_window_rioxarray\<close> makes to the geometry and raster libraries, in
  order, are returned beside its result.
\<close>

datatype call = ToCrs crs | ClipBox bounds | Reproject crs

definition extract_window_rioxarray ::
  "('r, 't) backend \<Rightarrow> ('r, 'z) RasterConnection_scheme \<Rightarrow> GeoDataFrame \<Rightarrow> real \<Rightarrow> int
     \<Rightarrow> (error + 'r) \<times> call list" where
  "extract_window_rioxarray be self roi projection_padding_meters interpolation_padding_cells =
     (case attrs self of
        None \<Rightarrow> (Inl (AttributeError ''raster_crs''), [])
      | Some a \<Rightarrow>
          (let (roi_bounds, log1) =
                 (if crs roi \<noteq> raster_crs a
                  then (total_bounds (to_crs be roi (raster_crs a)), [ToCrs (raster_crs a)])
                  else (total_bounds roi, []));
               roi_padded_bounds =
                 (case roi_bounds of (b0, b1, b2, b3) \<Rightarrow>
                    (b0 - projection_padding_meters, b1 - projection_padding_meters,
                     b2 + projection_padding_meters, b3 + projection_padding_meters));
               log2 = log1 @ [ClipBox roi_padded_bounds]
           in case rio_clip_box be (raster a) roi_padded_bounds of
                Inl e \<Rightarrow> (Inl e, log2)
              | Inr window \<Rightarrow>
                  (let (reprojected, log3) =
                         (if crs roi \<noteq> raster_crs a
                          then (rio_reproject be window (crs roi), log2 @ [Reproject (crs roi)])
                          else (Inr window, log2))
                   in case reprojected of
                        Inl e \<Rightarrow> (Inl e, log3)
                      | Inr window_reprojected \<Rightarrow>
                          (let roi_padded =
                                 (case total_bounds roi of (t0, t1, t2, t3) \<Rightarrow>
                                    (t0 - of_int interpolation_padding_cells * raster_resolution a,
                                     t1 - of_int interpolation_padding_cells * raster_resolution a,
                                     t2 + of_int interpolation_padding_cells * raster_resolution a,
                                     t3 + of_int interpolation_padding_cells * raster_resolution a))
                           in (rio_clip_box be window_reprojected roi_padded,
                               log3 @ [ClipBox roi_padded])))))"

text \<open>
  \<open>extract_window\<close> returns what the rioxarray implementation returns when the connection
  type is \<open>rioxarray\<close>; otherwise the method body ends and Python returns \<open>None\<close>.
\<close>

definition extract_window ::
  "('r, 't) backend \<Rightarrow> ('r, 'z) RasterConnection_scheme \<Rightarrow> GeoDataFrame \<Rightarrow> real \<Rightarrow> int
     \<Rightarrow> (error + 'r option) \<times> call list" where
  "extract_window be self roi projection_padding_meters interpolation_padding_cells =
     (if connection_type self = ''rioxarray''
      then (case extract_window_rioxarray be self roi projection_padding_meters
                   interpolation_padding_cells of
              (Inl e, calls) \<Rightarrow> (Inl e, calls)
            | (Inr w, calls) \<Rightarrow> (Inr (Some w), calls))
      else (Inr None, []))"

section \<open>Tree tables (utils/treemap.py)\<close>

text \<open>
  A cell of a numeric column is a number or missing (NaN, null). A row maps the names of
  its columns to cells, a pandas DataFrame is the list of its rows with their index labels,
  and a dask DataFrame is the list of its partitions. A column name outside a row's domain
  is a column the frame does not have: pandas raises \<open>KeyError\<close> on reading it, which is
  outside the model (the frames are taken to carry the columns that are read).
\<close>

datatype cell = Val real | NA

type_synonym row = "string \<rightharpoonup> cell"

type_synonym DataFrame = "(int \<times> row) list"

type_synonym dask_DataFrame = "DataFrame list"

record 'r TreeMapConnection = "'r RasterConnection" +
  version :: string
  tl_key :: string
  raster_path :: string
  table_path :: string
  tree_table :: dask_DataFrame

text \<open>Python's \<open>str.endswith\<close>.\<close>

definition endswith :: "string \<Rightarrow> string \<Rightarrow> bool" where
  "endswith s suffix =
     (length suffix \<le> length s \<and> drop (length s - length suffix) s = suffix)"

text \<open>
  \<open>TreeMapConnection.__init__\<close>. The \<open>try\<close> block covers the two readers and the
  \<open>raise NotImplementedError\<close>; its handler catches \<open>FileNotFoundError\<close> only and raises
  a new one naming the table path.
\<close>

definition TreeMapConnection_init ::
  "('r, dask_DataFrame) backend \<Rightarrow> string \<Rightarrow> string \<Rightarrow> string \<Rightarrow> kwargs
     \<Rightarrow> error + 'r TreeMapConnection" where
  "TreeMapConnection_init be treemap_path tree_table_path vers kw =
     (if vers \<notin> set [''2014'', ''2016'']
      then Inl (ValueError (''Invalid version: '' @ vers))
      else
        (case RasterConnection_init be treemap_path ''rioxarray'' kw of
           Inl e \<Rightarrow> Inl e
         | Inr base \<Rightarrow>
             (case (if endswith tree_table_path ''.csv'' then read_csv be tree_table_path
                    else if endswith tree_table_path ''.parquet''
                    then read_parquet be tree_table_path
                    else Inl (NotImplementedError
                               (''Unsupported file format for tree table: '' @ tree_table_path))) of
                Inl (FileNotFoundError m) \<Rightarrow>
                  Inl (FileNotFoundError (''Invalid tree table path: '' @ tree_table_path))
              | Inl e \<Rightarrow> Inl e
              | Inr table \<Rightarrow>
                  Inr (RasterConnection.extend base
                        (TreeMapConnection.fields vers
                           (if vers = ''2014'' then ''tl_id'' else ''tm_id'')
                           treemap_path tree_table_path table)))))"

subsection \<open>The pandas and dask operations the query uses\<close>

text \<open>\<open>Series.unique()\<close>: the distinct values in order of first appearance.\<close>

definition unique :: "'a list \<Rightarrow> 'a list" where
  "unique xs = fold (\<lambda>x seen. if x \<in> set seen then seen else seen @ [x]) xs []"

text \<open>\<open>frame[name]\<close>: the values of one column.\<close>

definition column :: "DataFrame \<Rightarrow> string \<Rightarrow> cell option list" where
  "column df name = map (\<lambda>(i, r). r name) df"

text \<open>\<open>Series.isin(values)\<close> for one cell; pandas matches a missing cell with a missing value.\<close>

definition isin :: "cell option \<Rightarrow> cell option list \<Rightarrow> bool" where
  "isin v values = (v \<in> set values)"

fun notnull :: "cell option \<Rightarrow> bool" where
  "notnull (Some (Val x)) = True"
| "notnull _ = False"

text \<open>
  \<open>reset_index()\<close>: the old index label becomes the column \<open>index\<close> and the rows are
  numbered from 0. On a dask frame this is done in each partition, so the numbering restarts
  there.
\<close>

definition reset_index :: "DataFrame \<Rightarrow> DataFrame" where
  "reset_index df =
     map (\<lambda>(k, (i, r)). (int k, r(''index'' \<mapsto> Val (of_int i)))) (enumerate 0 df)"

text \<open>\<open>rename(columns={old: new})\<close>; a name the frame does not have is ignored.\<close>

definition rename_row :: "string \<Rightarrow> string \<Rightarrow> row \<Rightarrow> row" where
  "rename_row old new r = (if r old = None then r else (r(old := None))(new := r old))"

definition rename :: "string \<Rightarrow> string \<Rightarrow> DataFrame \<Rightarrow> DataFrame" where
  "rename old new df = map (\<lambda>(i, r). (i, rename_row old new r)) df"

text \<open>\<open>frame[[names]]\<close>: the projection onto the listed columns.\<close>

definition select_columns :: "string list \<Rightarrow> DataFrame \<Rightarrow> DataFrame" where
  "select_columns names df = map (\<lambda>(i, r). (i, r |` set names)) df"

text \<open>\<open>frame[name] = a.where(a.notnull(), b)\<close> for the columns \<open>a\<close> and \<open>b\<close> of the frame.\<close>

definition assign_where_notnull :: "string \<Rightarrow> string \<Rightarrow> string \<Rightarrow> DataFrame \<Rightarrow> DataFrame" where
  "assign_where_notnull name a b df =
     map (\<lambda>(i, r). (i, r(name := (if notnull (r a) then r a else r b)))) df"

definition drop_column :: "string \<Rightarrow> DataFrame \<Rightarrow> DataFrame" where
  "drop_column name df = map (\<lambda>(i, r). (i, r(name := None))) df"

text \<open>\<open>frame[name] = frame[name] * k\<close> and \<open>/ k\<close>: arithmetic on a missing cell is missing.\<close>

fun map_cell :: "(real \<Rightarrow> real) \<Rightarrow> cell \<Rightarrow> cell" where
  "map_cell f (Val x) = Val (f x)"
| "map_cell f NA = NA"

definition update_column :: "string \<Rightarrow> (real \<Rightarrow> real) \<Rightarrow> DataFrame \<Rightarrow> DataFrame" where
  "update_column name f df = map (\<lambda>(i, r). (i, r(name := map_option (map_cell f) (r name)))) df"

text \<open>\<open>compute()\<close>: the partitions of a dask frame, concatenated into one pandas frame.\<close>

definition compute :: "dask_DataFrame \<Rightarrow> DataFrame" where
  "compute parts = concat parts"

subsection \<open>The query and the unit conversion\<close>

text \<open>
  \<open>TreeSample\<close> belongs to another package; it is modelled as the frame it is built from.
\<close>

type_synonym TreeSample = DataFrame

definition convert_treemap_data_to_fastfuels :: "DataFrame \<Rightarrow> TreeSample" where
  "convert_treemap_data_to_fastfuels data =
     (let metric_data = data;
          metric_data = update_column ''CR'' (\<lambda>x. x / 100) metric_data;
          metric_data = update_column ''HT'' (\<lambda>x. x * 0.3048) metric_data;
          metric_data = update_column ''DIA'' (\<lambda>x. x * 2.54) metric_data;
          metric_data = update_column ''TPA_UNADJ'' (\<lambda>x. x * 2.47105) metric_data;
          metric_data = update_column ''TPA_UNADJ'' (\<lambda>x. x / 10000) metric_data;
          metric_data = rename ''TPA_UNADJ'' ''TPA'' metric_data
      in metric_data)"

text \<open>
  Lines 80 to 101 of \<open>query_trees_by_plots\<close>: the frame \<open>trees\<close> that is handed to the
  unit conversion.
\<close>

definition trees_before_conversion ::
  "('r, 'z) TreeMapConnection_scheme \<Rightarrow> DataFrame \<Rightarrow> DataFrame" where
  "trees_before_conversion self plots =
     (let plot_ids = unique (column plots ''PLOT_ID'');
          trees_delayed =
            map (filter (\<lambda>(i, r). isin (r (tl_key self)) plot_ids)) (tree_table self);
          trees_delayed = map (rename ''index'' ''TREE_ID'' \<circ> reset_index) trees_delayed;
          trees_delayed =
            map (select_columns
                   [''TREE_ID'', tl_key self, ''SPCD'', ''STATUSCD'', ''DIA'', ''HT'',
                    ''ACTUALHT'', ''CR'', ''TPA_UNADJ'']) trees_delayed;
          trees_delayed = map (assign_where_notnull ''HT'' ''ACTUALHT'' ''HT'') trees_delayed;
          trees_delayed = map (drop_column ''ACTUALHT'') trees_delayed;
          trees = compute trees_delayed;
          trees = rename (tl_key self) ''PLOT_ID'' trees
      in trees)"

definition query_trees_by_plots ::
  "('r, 'z) TreeMapConnection_scheme \<Rightarrow> DataFrame \<Rightarrow> TreeSample" where
  "query_trees_by_plots self plots =
     convert_treemap_data_to_fastfuels (trees_before_conversion self plots)"

section \<open>Notions the properties are stated with\<close>

text \<open>
  A box lies within another when it does on all four sides, boundaries included.
\<close>

definition bounds_within :: "bounds \<Rightarrow> bounds \<Rightarrow> bool" where
  "bounds_within inner outer =
     (case inner of (a0, a1, a2, a3) \<Rightarrow> case outer of (b0, b1, b2, b3) \<Rightarrow>
        b0 \<le> a0 \<and> b1 \<le> a1 \<and> a2 \<le> b2 \<and> a3 \<le> b3)"

text \<open>
  A point lies in a box, boundaries included.
\<close>

definition point_in_bounds :: "bounds \<Rightarrow> point \<Rightarrow> bool" where
  "point_in_bounds b p =
     (case b of (b0, b1, b2, b3) \<Rightarrow> case p of (x, y) \<Rightarrow> b0 \<le> x \<and> x \<le> b2 \<and> b1 \<le> y \<and> y \<le> b3)"

text \<open>
  The four corners of a bounding box.
\<close>

definition corners :: "bounds \<Rightarrow> point list" where
  "corners b = (case b of (b0, b1, b2, b3) \<Rightarrow> [(b0, b1), (b0, b3), (b2, b1), (b2, b3)])"

text \<open>
  A box padded by a distance on all four sides: subtracted from min-x and min-y, added to
  max-x and max-y.
\<close>

definition pad :: "bounds \<Rightarrow> real \<Rightarrow> bounds" where
  "pad b d = (case b of (b0, b1, b2, b3) \<Rightarrow> (b0 - d, b1 - d, b2 + d, b3 + d))"

text \<open>
  The computation the specification describes for a ROI whose CRS is the raster's: take the
  ROI's own bounding box, clip the raster to the projection-padded box, and clip that window,
  unreprojected, to the interpolation-padded box.
\<close>

definition extract_window_matching_crs ::
  "('r, 't) backend \<Rightarrow> 'r raster_attrs \<Rightarrow> GeoDataFrame \<Rightarrow> real \<Rightarrow> int \<Rightarrow> error + 'r" where
  "extract_window_matching_crs be a roi projection_padding interpolation_padding =
     (case rio_clip_box be (raster a) (pad (total_bounds roi) projection_padding) of
        Inl e \<Rightarrow> Inl e
      | Inr window \<Rightarrow>
          rio_clip_box be window
            (pad (total_bounds roi) (of_int interpolation_padding * raster_resolution a)))"

text \<open>
  The library calls that reproject: \<open>to_crs\<close> on the ROI and \<open>rio.reproject\<close> on a window.
\<close>

fun is_reprojection :: "call \<Rightarrow> bool" where
  "is_reprojection (ToCrs c) = True"
| "is_reprojection (Reproject c) = True"
| "is_reprojection (ClipBox b) = False"



text \<open>
  The height rule of the specification: the actual height where it is present, else the
  nominal height.
\<close>

definition coalesce :: "cell option \<Rightarrow> cell option \<Rightarrow> cell option" where
  "coalesce actual nominal = (case actual of Some (Val x) \<Rightarrow> Some (Val x) | _ \<Rightarrow> nominal)"

text \<open>
  The rows of the tree table, in table order and with their index labels, whose plot-linkage
  key is among the queried plot identifiers.
\<close>

definition matching_rows :: "('r, 'z) TreeMapConnection_scheme \<Rightarrow> DataFrame \<Rightarrow> DataFrame" where
  "matching_rows self plots =
     filter (\<lambda>(i, r). r (tl_key self) \<in> set (column plots ''PLOT_ID'')) (concat (tree_table self))"

text \<open>
  What the query makes of one matching row with index label \<open>i\<close>, before the unit conversion.
\<close>

definition joined_row :: "string \<Rightarrow> int \<Rightarrow> row \<Rightarrow> row" where
  "joined_row key i r =
     rename_row key ''PLOT_ID''
       (((rename_row ''index'' ''TREE_ID'' (r(''index'' \<mapsto> Val (of_int i)))
            |` set [''TREE_ID'', key, ''SPCD'', ''STATUSCD'', ''DIA'', ''HT'',
                    ''ACTUALHT'', ''CR'', ''TPA_UNADJ''])
          (''HT'' := (if notnull (r ''ACTUALHT'') then r ''ACTUALHT'' else r ''HT'')))
          (''ACTUALHT'' := None))"


section \<open>A small executable backend\<close>

text \<open>
  To run the model on concrete inputs, a raster is represented by its CRS and extent alone:
  clipping intersects extents and fails on an empty intersection, and the coordinates of
  \<open>EPSG n\<close> are those of \<open>EPSG m\<close> shifted by \<open>n - m\<close>. The file system holds one raster
  and two tree tables; \<open>trees_partitioned.csv\<close> is read in two partitions, each with an index
  that starts at 0, as dask reads a large CSV file.
\<close>

type_synonym extent = "crs \<times> bounds"

definition example_raster :: extent where
  "example_raster = (EPSG 5070, (0, 0, 3000, 3000))"

definition example_clip_box :: "extent \<Rightarrow> bounds \<Rightarrow> error + extent" where
  "example_clip_box r b =
     (case r of (c, (x0, y0, x1, y1)) \<Rightarrow> case b of (b0, b1, b2, b3) \<Rightarrow>
        if max x0 b0 \<le> min x1 b2 \<and> max y0 b1 \<le> min y1 b3
        then Inr (c, (max x0 b0, max y0 b1, min x1 b2, min y1 b3))
        else Inl (UpstreamError ''NoDataInBounds''))"

fun example_transform :: "crs \<Rightarrow> crs \<Rightarrow> point \<Rightarrow> point" where
  "example_transform (EPSG m) (EPSG n) (x, y) = (x + real n - real m, y + real n - real m)"

definition example_reproject :: "extent \<Rightarrow> crs \<Rightarrow> error + extent" where
  "example_reproject r target =
     (case r of (c, (x0, y0, x1, y1)) \<Rightarrow>
        case example_transform c target (x0, y0) of (u0, v0) \<Rightarrow>
        case example_transform c target (x1, y1) of (u1, v1) \<Rightarrow> Inr (target, (u0, v0, u1, v1)))"

definition example_trees :: dask_DataFrame where
  "example_trees =
     [[(0, map_of [(''tm_id'', Val 10), (''SPCD'', Val 202), (''STATUSCD'', Val 1),
                   (''DIA'', Val 10), (''HT'', Val 20), (''ACTUALHT'', NA), (''CR'', Val 50),
                   (''TPA_UNADJ'', Val 100), (''TREE'', Val 1)]),
       (1, map_of [(''tm_id'', Val 20), (''SPCD'', Val 122), (''STATUSCD'', Val 1),
                   (''DIA'', Val 8), (''HT'', Val 15), (''ACTUALHT'', Val 12), (''CR'', Val 40),
                   (''TPA_UNADJ'', Val 6), (''TREE'', Val 2)]),
       (2, map_of [(''tm_id'', Val 10), (''SPCD'', Val 202), (''STATUSCD'', Val 2),
                   (''DIA'', Val 12), (''HT'', Val 15), (''ACTUALHT'', NA), (''CR'', Val 30),
                   (''TPA_UNADJ'', Val 6), (''TREE'', Val 3)])]]"

definition example_trees_partitioned :: dask_DataFrame where
  "example_trees_partitioned =
     [[(0, map_of [(''tm_id'', Val 10), (''SPCD'', Val 202), (''STATUSCD'', Val 1),
                   (''DIA'', Val 10), (''HT'', Val 20), (''ACTUALHT'', NA), (''CR'', Val 50),
                   (''TPA_UNADJ'', Val 100)])],
      [(0, map_of [(''tm_id'', Val 10), (''SPCD'', Val 202), (''STATUSCD'', Val 2),
                   (''DIA'', Val 12), (''HT'', Val 15), (''ACTUALHT'', NA), (''CR'', Val 30),
                   (''TPA_UNADJ'', Val 6)])]]"

definition example_backend :: "(extent, dask_DataFrame) backend" where
  "example_backend =
     \<lparr>open_rasterio = (\<lambda>path kw. if path = ''treemap.tif'' then Inr example_raster
                                 else Inl (UpstreamError ''RasterioIOError'')),
      rio_crs = fst,
      rio_resolution = (\<lambda>r. (30, - 30)),
      rio_bounds = snd,
      dtype = (\<lambda>r. ''int16''),
      rio_clip_box = example_clip_box,
      rio_reproject = example_reproject,
      transform = example_transform,
      read_csv = (\<lambda>path. if path = ''trees.csv'' then Inr example_trees
                          else if path = ''trees_partitioned.csv'' then Inr example_trees_partitioned
                          else Inl (FileNotFoundError path)),
      read_parquet = (\<lambda>path. Inl (FileNotFoundError path))\<rparr>"

definition example_attrs :: "extent raster_attrs" where
  "example_attrs =
     \<lparr>raster = example_raster, raster_crs = EPSG 5070, raster_resolution = 30,
      raster_bounds = (0, 0, 3000, 3000), raster_dtype = ''int16''\<rparr>"

definition example_connection :: "extent RasterConnection" where
  "example_connection = \<lparr>connection_type = ''rioxarray'', attrs = Some example_attrs\<rparr>"

definition example_treemap :: "dask_DataFrame \<Rightarrow> string \<Rightarrow> extent TreeMapConnection" where
  "example_treemap table path =
     \<lparr>connection_type = ''rioxarray'', attrs = Some example_attrs, version = ''2016'',
      tl_key = ''tm_id'', raster_path = ''treemap.tif'', table_path = path,
      tree_table = table\<rparr>"

definition example_roi :: GeoDataFrame where
  "example_roi =
     \<lparr>crs = EPSG 5070, geometry = Polygon (100, 100) [(400, 100), (400, 250), (100, 250)]\<rparr>"

definition example_roi_other_crs :: GeoDataFrame where
  "example_roi_other_crs =
     \<lparr>crs = EPSG 5072, geometry = Polygon (102, 102) [(402, 102), (402, 252), (102, 252)]\<rparr>"

definition example_plots :: DataFrame where
  "example_plots = [(0, map_of [(''PLOT_ID'', Val 10)]), (1, map_of [(''PLOT_ID'', Val 10)])]"

section \<open>Containment in the raster bounds\<close>

lemma fold_grow:
  "fold grow ps (x0, y0, x1, y1) = (a0, a1, a2, a3) \<Longrightarrow>
     a0 \<le> x0 \<and> a1 \<le> y0 \<and> x1 \<le> a2 \<and> y1 \<le> a3 \<and>
     (\<forall>p \<in> set ps. a0 \<le> fst p \<and> fst p \<le> a2 \<and> a1 \<le> snd p \<and> snd p \<le> a3) \<and>
     (a0 = x0 \<or> a0 \<in> fst ` set ps) \<and> (a1 = y0 \<or> a1 \<in> snd ` set ps) \<and>
     (a2 = x1 \<or> a2 \<in> fst ` set ps) \<and> (a3 = y1 \<or> a3 \<in> snd ` set ps)"
proof (induction ps arbitrary: x0 y0 x1 y1)
  case Nil
  then show ?case by simp
next
  case (Cons p ps)
  obtain x y where p: "p = (x, y)" by (cases p)
  from Cons.prems have "fold grow ps (min x0 x, min y0 y, max x1 x, max y1 y) = (a0, a1, a2, a3)"
    by (simp add: p)
  from Cons.IH[OF this] show ?case
    by (auto simp: p min_def max_def split: if_splits)
qed

lemma geometry_bounds_ordered:
  "geometry_bounds g = (a0, a1, a2, a3) \<Longrightarrow> a0 \<le> a2 \<and> a1 \<le> a3"
proof (cases g)
  case (Polygon p ps)
  obtain x y where p: "p = (x, y)" by (cases p)
  assume "geometry_bounds g = (a0, a1, a2, a3)"
  then have "fold grow ps (x, y, x, y) = (a0, a1, a2, a3)" by (simp add: Polygon p)
  from fold_grow[OF this] show ?thesis by linarith
qed

lemma geometry_bounds_within_iff:
  "bounds_within (geometry_bounds g) outer \<longleftrightarrow> (\<forall>p \<in> set (coords g). point_in_bounds outer p)"
proof (cases g)
  case (Polygon p ps)
  obtain x y where p: "p = (x, y)" by (cases p)
  obtain a0 a1 a2 a3 where a: "fold grow ps (x, y, x, y) = (a0, a1, a2, a3)"
    by (metis prod_cases4)
  obtain b0 b1 b2 b3 where b: "outer = (b0, b1, b2, b3)" by (metis prod_cases4)
  note f = fold_grow[OF a]
  show ?thesis
  proof
    assume "bounds_within (geometry_bounds g) outer"
    then have w: "b0 \<le> a0" "b1 \<le> a1" "a2 \<le> b2" "a3 \<le> b3"
      by (simp_all add: bounds_within_def Polygon p a b)
    show "\<forall>q \<in> set (coords g). point_in_bounds outer q"
    proof
      fix q assume "q \<in> set (coords g)"
      then have "q = (x, y) \<or> q \<in> set ps" by (auto simp: Polygon p)
      then have "a0 \<le> fst q \<and> fst q \<le> a2 \<and> a1 \<le> snd q \<and> snd q \<le> a3"
        using f by auto
      with w show "point_in_bounds outer q"
        by (cases q) (simp add: point_in_bounds_def b)
    qed
  next
    assume all: "\<forall>q \<in> set (coords g). point_in_bounds outer q"
    have in_b: "b0 \<le> fst q \<and> fst q \<le> b2 \<and> b1 \<le> snd q \<and> snd q \<le> b3"
      if "q = (x, y) \<or> q \<in> set ps" for q
      using all that by (cases q) (auto simp: point_in_bounds_def b Polygon p)
    have "b0 \<le> a0" using f in_b by fastforce
    moreover have "b1 \<le> a1" using f in_b by fastforce
    moreover have "a2 \<le> b2" using f in_b by fastforce
    moreover have "a3 \<le> b3" using f in_b by fastforce
    ultimately show "bounds_within (geometry_bounds g) outer"
      by (simp add: bounds_within_def Polygon p a b)
  qed
qed

lemma bounds_within_corners:
  assumes "geometry_bounds g = inner"
  shows "bounds_within inner outer \<longleftrightarrow> list_all (point_in_bounds outer) (corners inner)"
proof -
  obtain a0 a1 a2 a3 where a: "inner = (a0, a1, a2, a3)" by (metis prod_cases4)
  obtain b0 b1 b2 b3 where b: "outer = (b0, b1, b2, b3)" by (metis prod_cases4)
  from geometry_bounds_ordered[of g a0 a1 a2 a3] assms a have "a0 \<le> a2" "a1 \<le> a3" by simp_all
  then show ?thesis
    by (auto simp: a b bounds_within_def corners_def point_in_bounds_def)
qed

text \<open>
  Claim C2. On a connection whose raster attributes are set, \<open>roi_within_raster_bounds\<close>
  reprojects the ROI into the raster's CRS, takes its bounding box and returns true if and
  only if that box lies within the raster's bounds on all four sides, boundaries included.
  This is the case exactly when all four corners of the ROI's bounding box lie in the raster's
  bounds, and exactly when every vertex of the reprojected ROI does: a ROI fully inside yields
  true, a ROI with a bounding-box corner outside yields false.
\<close>

theorem roi_within_raster_bounds_iff:
  assumes "attrs self = Some a"
  shows "roi_within_raster_bounds be self roi =
           Inr (bounds_within (total_bounds (to_crs be roi (raster_crs a))) (raster_bounds a))
         \<and> (bounds_within (total_bounds (to_crs be roi (raster_crs a))) (raster_bounds a)
              \<longleftrightarrow> list_all (point_in_bounds (raster_bounds a))
                     (corners (total_bounds (to_crs be roi (raster_crs a)))))
         \<and> (bounds_within (total_bounds (to_crs be roi (raster_crs a))) (raster_bounds a)
              \<longleftrightarrow> list_all (point_in_bounds (raster_bounds a))
                     (coords (geometry (to_crs be roi (raster_crs a)))))"
proof -
  have 1: "roi_within_raster_bounds be self roi =
           Inr (bounds_within (total_bounds (to_crs be roi (raster_crs a))) (raster_bounds a))"
    using assms
    by (simp add: roi_within_raster_bounds_def bounds_within_def Let_def split: prod.splits)
  have 2: "bounds_within (total_bounds (to_crs be roi (raster_crs a))) (raster_bounds a)
              \<longleftrightarrow> list_all (point_in_bounds (raster_bounds a))
                     (corners (total_bounds (to_crs be roi (raster_crs a))))"
    by (rule bounds_within_corners) (simp add: total_bounds_def)
  have 3: "bounds_within (total_bounds (to_crs be roi (raster_crs a))) (raster_bounds a)
              \<longleftrightarrow> list_all (point_in_bounds (raster_bounds a))
                     (coords (geometry (to_crs be roi (raster_crs a))))"
    by (simp add: total_bounds_def geometry_bounds_within_iff list_all_iff)
  from 1 2 3 show ?thesis by blast
qed

section \<open>Window extraction\<close>

lemma init_attrs:
  assumes "RasterConnection_init be path ty kw = Inr conn"
  shows "connection_type conn = ''rioxarray'' \<and>
         (\<exists>r. open_rasterio be path kw = Inr r \<and>
              attrs conn = Some \<lparr>raster = r, raster_crs = rio_crs be r,
                                  raster_resolution = \<bar>fst (rio_resolution be r)\<bar>,
                                  raster_bounds = rio_bounds be r, raster_dtype = dtype be r\<rparr>)"
  using assms
  by (auto simp: RasterConnection_init_def allowed_connection_types_def
           split: if_splits sum.splits)

text \<open>
  Claim C3. When the first clip and the reprojection (if any) have produced a window, the
  result of \<open>_extract_window_rioxarray\<close> is that window clipped to the box computed from the
  ROI's bounding box in the ROI's own CRS, padded on all four sides by
  \<open>interpolation_padding_cells\<close> times the raster's resolution; this clip is the last
  library call made.
\<close>

theorem second_clip_box:
  assumes "attrs self = Some a"
    and "rio_clip_box be (raster a)
           (pad (if crs roi \<noteq> raster_crs a then total_bounds (to_crs be roi (raster_crs a))
                 else total_bounds roi) pp) = Inr window"
    and "(if crs roi \<noteq> raster_crs a then rio_reproject be window (crs roi) else Inr window)
           = Inr window_reprojected"
    and "total_bounds roi = (t0, t1, t2, t3)"
  shows "fst (extract_window_rioxarray be self roi pp cells) =
           rio_clip_box be window_reprojected
             (t0 - of_int cells * raster_resolution a, t1 - of_int cells * raster_resolution a,
              t2 + of_int cells * raster_resolution a, t3 + of_int cells * raster_resolution a)
         \<and> last (snd (extract_window_rioxarray be self roi pp cells)) =
             ClipBox (t0 - of_int cells * raster_resolution a,
                      t1 - of_int cells * raster_resolution a,
                      t2 + of_int cells * raster_resolution a,
                      t3 + of_int cells * raster_resolution a)"
  using assms
  by (auto simp: extract_window_rioxarray_def pad_def Let_def split: prod.splits if_splits)

text \<open>
  Claim C8. When the ROI's CRS is the raster's, \<open>_extract_window_rioxarray\<close> returns what the
  simplified computation returns, and none of its library calls is a reprojection.
\<close>

theorem crs_match_shortcut:
  assumes "attrs self = Some a" and "crs roi = raster_crs a"
  shows "fst (extract_window_rioxarray be self roi pp cells) =
           extract_window_matching_crs be a roi pp cells
         \<and> \<not> list_ex is_reprojection (snd (extract_window_rioxarray be self roi pp cells))"
  using assms
  by (auto simp: extract_window_rioxarray_def extract_window_matching_crs_def pad_def Let_def
           split: prod.splits sum.splits)

text \<open>
  Claim C10. A successfully constructed connection has a connection type in the allowed set,
  which is \<open>rioxarray\<close>; \<open>extract_window\<close> on it returns what the rioxarray implementation
  returns, and never the absent result of the untaken branch.
\<close>

theorem dispatch_total:
  assumes "RasterConnection_init be path ty kw = Inr conn"
  shows "connection_type conn \<in> set allowed_connection_types
         \<and> connection_type conn = ''rioxarray''
         \<and> extract_window be conn roi pp cells =
             (map_sum id Some (fst (extract_window_rioxarray be conn roi pp cells)),
              snd (extract_window_rioxarray be conn roi pp cells))
         \<and> fst (extract_window be conn roi pp cells) \<noteq> Inr None"
  using init_attrs[OF assms]
  by (auto simp: extract_window_def allowed_connection_types_def split: prod.splits sum.splits)





section \<open>The tree query, row by row\<close>

lemma set_unique_aux:
  "set (fold (\<lambda>x seen. if x \<in> set seen then seen else seen @ [x]) xs acc) = set xs \<union> set acc"
  by (induction xs arbitrary: acc) auto

lemma set_unique: "set (unique xs) = set xs"
  by (simp add: unique_def set_unique_aux)

lemma init_tree_attrs:
  assumes "TreeMapConnection_init be rp tp v kw = Inr self"
  shows "tl_key self = ''tl_id'' \<or> tl_key self = ''tm_id''"
  using assms
  by (auto simp: TreeMapConnection_init_def RasterConnection.extend_def
        TreeMapConnection.fields_def RasterConnection.defs TreeMapConnection.defs
        split: if_splits sum.splits error.splits)

lemma reset_index_rows_aux:
  "map (\<lambda>(k, (i, r)). f i r) (enumerate n xs) = map (\<lambda>(i, r). f i r) xs"
  by (induction xs arbitrary: n) auto

lemma reset_index_rows:
  "map snd (reset_index df) = map (\<lambda>(i, r). r(''index'' \<mapsto> Val (of_int i))) df"
proof -
  have "map snd (reset_index df) =
          map (\<lambda>(k, (i, r)). r(''index'' \<mapsto> Val (of_int i))) (enumerate 0 df)"
    by (simp add: reset_index_def case_prod_unfold)
  then show ?thesis by (simp only: reset_index_rows_aux)
qed

lemma rename_rows: "map snd (rename old new df) = map (rename_row old new) (map snd df)"
  by (simp add: rename_def case_prod_unfold)

lemma select_columns_rows:
  "map snd (select_columns names df) = map (\<lambda>r. r |` set names) (map snd df)"
  by (simp add: select_columns_def case_prod_unfold)

lemma assign_where_notnull_rows:
  "map snd (assign_where_notnull name a b df) =
     map (\<lambda>r. r(name := (if notnull (r a) then r a else r b))) (map snd df)"
  by (simp add: assign_where_notnull_def case_prod_unfold)

lemma drop_column_rows:
  "map snd (drop_column name df) = map (\<lambda>r. r(name := None)) (map snd df)"
  by (simp add: drop_column_def case_prod_unfold)

lemma update_column_rows:
  "map snd (update_column name f df) =
     map (\<lambda>r. r(name := map_option (map_cell f) (r name))) (map snd df)"
  by (simp add: update_column_def case_prod_unfold)

lemma partition_rows:
  assumes key: "key = ''tl_id'' \<or> key = ''tm_id''"
  shows "map snd
          (drop_column ''ACTUALHT''
             (assign_where_notnull ''HT'' ''ACTUALHT'' ''HT''
               (select_columns [''TREE_ID'', key, ''SPCD'', ''STATUSCD'', ''DIA'', ''HT'',
                    ''ACTUALHT'', ''CR'', ''TPA_UNADJ'']
                 (rename ''index'' ''TREE_ID'' (reset_index p)))))
        = map (\<lambda>(i, r).
             ((rename_row ''index'' ''TREE_ID'' (r(''index'' \<mapsto> Val (of_int i)))
                |` set [''TREE_ID'', key, ''SPCD'', ''STATUSCD'', ''DIA'', ''HT'',
                    ''ACTUALHT'', ''CR'', ''TPA_UNADJ''])
               (''HT'' := (if notnull (r ''ACTUALHT'') then r ''ACTUALHT'' else r ''HT'')))
               (''ACTUALHT'' := None)) p"
  using key
  by (auto simp: drop_column_rows assign_where_notnull_rows select_columns_rows rename_rows
        reset_index_rows rename_row_def restrict_map_def case_prod_unfold)

lemma before_conversion_rows:
  assumes key: "tl_key self = ''tl_id'' \<or> tl_key self = ''tm_id''"
  shows "map snd (trees_before_conversion self plots) =
     map (\<lambda>(i, r). joined_row (tl_key self) i r) (matching_rows self plots)"
proof -
  have "map snd (trees_before_conversion self plots) =
      map (rename_row (tl_key self) ''PLOT_ID'')
       (concat (map (\<lambda>p. map snd
          (drop_column ''ACTUALHT''
             (assign_where_notnull ''HT'' ''ACTUALHT'' ''HT''
               (select_columns [''TREE_ID'', tl_key self, ''SPCD'', ''STATUSCD'', ''DIA'', ''HT'',
                    ''ACTUALHT'', ''CR'', ''TPA_UNADJ'']
                 (rename ''index'' ''TREE_ID'' (reset_index p))))))
          (map (filter (\<lambda>(i, r). isin (r (tl_key self)) (unique (column plots ''PLOT_ID''))))
             (tree_table self))))"
    by (simp add: trees_before_conversion_def Let_def compute_def rename_rows map_concat comp_def)
  also have "\<dots> = map (rename_row (tl_key self) ''PLOT_ID'')
       (concat (map (\<lambda>p. map (\<lambda>(i, r).
             ((rename_row ''index'' ''TREE_ID'' (r(''index'' \<mapsto> Val (of_int i)))
                |` set [''TREE_ID'', tl_key self, ''SPCD'', ''STATUSCD'', ''DIA'', ''HT'',
                    ''ACTUALHT'', ''CR'', ''TPA_UNADJ''])
               (''HT'' := (if notnull (r ''ACTUALHT'') then r ''ACTUALHT'' else r ''HT'')))
               (''ACTUALHT'' := None)) p)
          (map (filter (\<lambda>(i, r). isin (r (tl_key self)) (unique (column plots ''PLOT_ID''))))
             (tree_table self))))"
    by (simp only: partition_rows[OF key])
  also have "\<dots> = map (\<lambda>(i, r). joined_row (tl_key self) i r) (matching_rows self plots)"
    by (simp add: matching_rows_def joined_row_def isin_def set_unique map_concat comp_def
          filter_concat case_prod_unfold)
  finally show ?thesis .
qed

lemma column_rows: "column df name = map (\<lambda>r. r name) (map snd df)"
  by (simp add: column_def case_prod_unfold)



lemma joined_row_HT:
  "key = ''tl_id'' \<or> key = ''tm_id'' \<Longrightarrow>
     joined_row key i r ''HT'' = (if notnull (r ''ACTUALHT'') then r ''ACTUALHT'' else r ''HT'')"
  by (auto simp: joined_row_def rename_row_def restrict_map_def)

lemma notnull_coalesce: "(if notnull a then a else h) = coalesce a h"
  by (cases a rule: notnull.cases) (simp_all add: coalesce_def)




lemma before_conversion_column:
  assumes key: "tl_key self = ''tl_id'' \<or> tl_key self = ''tm_id''"
  shows "column (trees_before_conversion self plots) c =
           map (\<lambda>(i, r). joined_row (tl_key self) i r c) (matching_rows self plots)"
  by (simp add: column_rows before_conversion_rows[OF key] case_prod_unfold)


text \<open>
  Claim C5. Before the unit conversion, the height of each result row is the actual height of
  its table row when that is present and the nominal height otherwise: a row with missing
  actual height and nominal height 15 yields 15, a row with actual height 12 and nominal
  height 15 yields 12.
\<close>

theorem height_is_row_coalesce:
  assumes "TreeMapConnection_init be rp tp v kw = Inr self"
  shows "column (trees_before_conversion self plots) ''HT'' =
           map (\<lambda>(i, r). coalesce (r ''ACTUALHT'') (r ''HT'')) (matching_rows self plots)
         \<and> coalesce (Some NA) (Some (Val 15)) = Some (Val 15)
         \<and> coalesce (Some (Val 12)) (Some (Val 15)) = Some (Val 12)"
  using init_tree_attrs[OF assms]
  by (simp add: before_conversion_column joined_row_HT notnull_coalesce coalesce_def)


text \<open>
  Claim C9. Two \<open>plots\<close> frames whose \<open>PLOT_ID\<close> columns have the same set of values give
  the same result of \<open>query_trees_by_plots\<close>.
\<close>

theorem query_depends_on_plot_id_set:
  assumes "set (column plots1 ''PLOT_ID'') = set (column plots2 ''PLOT_ID'')"
  shows "query_trees_by_plots self plots1 = query_trees_by_plots self plots2"
proof -
  have "isin v (unique (column plots1 ''PLOT_ID'')) = isin v (unique (column plots2 ''PLOT_ID''))"
    for v
    by (simp add: isin_def set_unique assms)
  then show ?thesis
    by (simp add: query_trees_by_plots_def trees_before_conversion_def)
qed

section \<open>The example backend\<close>

lemma example_init:
  "RasterConnection_init example_backend ''treemap.tif'' ''rioxarray'' [] = Inr example_connection"
  by (simp add: RasterConnection_init_def allowed_connection_types_def example_backend_def
        example_connection_def example_attrs_def example_raster_def)

lemma example_treemap_init:
  "TreeMapConnection_init example_backend ''treemap.tif'' ''trees.csv'' ''2016'' []
     = Inr (example_treemap example_trees ''trees.csv'')"
  by (simp add: TreeMapConnection_init_def RasterConnection_init_def allowed_connection_types_def
        example_backend_def example_treemap_def example_attrs_def example_raster_def endswith_def
        RasterConnection.defs TreeMapConnection.defs)

lemma example_treemap_partitioned_init:
  "TreeMapConnection_init example_backend ''treemap.tif'' ''trees_partitioned.csv'' ''2016'' []
     = Inr (example_treemap example_trees_partitioned ''trees_partitioned.csv'')"
  by (simp add: TreeMapConnection_init_def RasterConnection_init_def allowed_connection_types_def
        example_backend_def example_treemap_def example_attrs_def example_raster_def endswith_def
        RasterConnection.defs TreeMapConnection.defs)



lemmas example_defs =
  example_backend_def example_connection_def example_attrs_def example_raster_def
  example_roi_def example_roi_other_crs_def example_clip_box_def example_reproject_def

lemmas raster_defs =
  extract_window_def extract_window_rioxarray_def roi_within_raster_bounds_def
  total_bounds_def to_crs_def Let_def

section \<open>The properties on the example backend\<close>

text \<open>
  Claim C2 on the example: a ROI inside the raster is reported as within its bounds.
\<close>

theorem roi_within_raster_bounds_iff_witness:
  "attrs example_connection = Some example_attrs
   \<and> roi_within_raster_bounds example_backend example_connection example_roi = Inr True
   \<and> total_bounds (to_crs example_backend example_roi (raster_crs example_attrs))
       = (100, 100, 400, 250)
   \<and> list_all (point_in_bounds (raster_bounds example_attrs))
        (corners (total_bounds (to_crs example_backend example_roi (raster_crs example_attrs))))"
  using roi_within_raster_bounds_iff [of example_connection example_attrs example_backend example_roi]
  by (simp add: example_defs raster_defs bounds_within_def)

text \<open>
  Claim C3 on the example, for a ROI in another CRS than the raster's.
\<close>

theorem second_clip_box_witness:
  "attrs example_connection = Some example_attrs
   \<and> rio_clip_box example_backend (raster example_attrs)
        (pad (total_bounds (to_crs example_backend example_roi_other_crs (EPSG 5070))) 50)
       = Inr (EPSG 5070, (50, 50, 450, 300))
   \<and> rio_reproject example_backend (EPSG 5070, (50, 50, 450, 300)) (EPSG 5072)
       = Inr (EPSG 5072, (52, 52, 452, 302))
   \<and> total_bounds example_roi_other_crs = (102, 102, 402, 252)
   \<and> fst (extract_window_rioxarray example_backend example_connection example_roi_other_crs 50 1)
       = Inr (EPSG 5072, (72, 72, 432, 282))
   \<and> last (snd (extract_window_rioxarray example_backend example_connection
                   example_roi_other_crs 50 1))
       = ClipBox (72, 72, 432, 282)"
  using second_clip_box [of example_connection example_attrs example_backend
      example_roi_other_crs 50 "(EPSG 5070, (50, 50, 450, 300))"
      "(EPSG 5072, (52, 52, 452, 302))" 102 102 402 252 1]
  by (simp add: example_defs raster_defs pad_def)

text \<open>
  Claim C8 on the example: the only library calls are the two clips.
\<close>

theorem crs_match_shortcut_witness:
  "attrs example_connection = Some example_attrs
   \<and> crs example_roi = raster_crs example_attrs
   \<and> extract_window_rioxarray example_backend example_connection example_roi 50 1
       = (Inr (EPSG 5070, (70, 70, 430, 280)),
          [ClipBox (50, 50, 450, 300), ClipBox (70, 70, 430, 280)])
   \<and> extract_window_matching_crs example_backend example_attrs example_roi 50 1
       = Inr (EPSG 5070, (70, 70, 430, 280))"
  using crs_match_shortcut [of example_connection example_attrs example_roi example_backend 50 1]
  by (simp add: example_defs raster_defs extract_window_matching_crs_def pad_def)

text \<open>
  Claim C10 on the example connection.
\<close>

theorem dispatch_total_witness:
  "RasterConnection_init example_backend ''treemap.tif'' ''rioxarray'' [] = Inr example_connection
   \<and> connection_type example_connection = ''rioxarray''
   \<and> extract_window example_backend example_connection example_roi 50 1
       = (Inr (Some (EPSG 5070, (70, 70, 430, 280))),
          [ClipBox (50, 50, 450, 300), ClipBox (70, 70, 430, 280)])"
  using dispatch_total [OF example_init, of example_roi 50 1]
  by (simp add: example_defs raster_defs RasterConnection_init_def allowed_connection_types_def)




section \<open>Construction errors\<close>





lemmas table_defs =
  example_treemap_def example_trees_def example_trees_partitioned_def example_plots_def

section \<open>The tree query on the example table\<close>



text \<open>
  Claim C5 on the example table, whose second row has an actual height and whose first and
  third rows have none.
\<close>

theorem height_is_row_coalesce_witness:
  "TreeMapConnection_init example_backend ''treemap.tif'' ''trees.csv'' ''2016'' []
     = Inr (example_treemap example_trees ''trees.csv'')
   \<and> column (trees_before_conversion (example_treemap example_trees ''trees.csv'')
        [(0, map_of [(''PLOT_ID'', Val 20)]), (1, map_of [(''PLOT_ID'', Val 10)])]) ''HT''
       = [Some (Val 20), Some (Val 12), Some (Val 15)]"
proof -
  note t = height_is_row_coalesce [OF example_treemap_init,
      of "[(0, map_of [(''PLOT_ID'', Val 20)]), (1, map_of [(''PLOT_ID'', Val 10)])]"]
  have m: "map (\<lambda>(i, r). coalesce (r ''ACTUALHT'') (r ''HT''))
             (matching_rows (example_treemap example_trees ''trees.csv'')
                [(0, map_of [(''PLOT_ID'', Val 20)]), (1, map_of [(''PLOT_ID'', Val 10)])])
           = [Some (Val 20), Some (Val 12), Some (Val 15)]"
    by (simp add: matching_rows_def column_def table_defs coalesce_def)
  from t m example_treemap_init show ?thesis by simp
qed


text \<open>
  Claim C9 on the example: a frame that lists plot 10 twice and one that lists it once.
\<close>

theorem query_depends_on_plot_id_set_witness:
  "set (column example_plots ''PLOT_ID'') = set (column [(5, map_of [(''PLOT_ID'', Val 10)])] ''PLOT_ID'')
   \<and> query_trees_by_plots (example_treemap example_trees ''trees.csv'') example_plots
       = query_trees_by_plots (example_treemap example_trees ''trees.csv'')
           [(5, map_of [(''PLOT_ID'', Val 10)])]"
  using query_depends_on_plot_id_set [of example_plots "[(5, map_of [(''PLOT_ID'', Val 10)])]"
      "example_treemap example_trees ''trees.csv''"]
  by (simp add: column_def example_plots_def)

end
